theory Spec2Isabelle
  imports Complex_Main "HOL-Library.Sublist"
begin

section \<open>Python string primitives\<close>

text \<open>
  A Python \<open>str\<close> is modelled as a \<open>string\<close> whose characters are the code points
  below 256. The character classes are those of \<open>str.strip\<close>, \<open>str.isdigit\<close>,
  \<open>str.lower\<close> and of the \<open>re\<close> module on \<open>str\<close> patterns, restricted to these
  code points: white space (\<open>\s\<close>, \<open>str.isspace\<close>) is TAB, LF, VT, FF, CR, FS, GS, RS,
  US, SPACE, NEL (0x85) and the no-break space (0xA0); a decimal digit (\<open>\d\<close>) is \<open>0\<close> to
  \<open>9\<close>; \<open>str.isdigit\<close> also accepts the superscript digits 0xB2, 0xB3 and 0xB9; a word
  character (\<open>\w\<close>) is alphanumeric or the underscore.
\<close>

definition is_space :: "char \<Rightarrow> bool" where
  "is_space c =
     (let n = (of_char c :: nat)
      in (9 \<le> n \<and> n \<le> 13) \<or> (28 \<le> n \<and> n \<le> 32) \<or> n = 133 \<or> n = 160)"

definition is_digit :: "char \<Rightarrow> bool" where
  "is_digit c = (let n = (of_char c :: nat) in 48 \<le> n \<and> n \<le> 57)"

definition isdigit_char :: "char \<Rightarrow> bool" where
  "isdigit_char c =
     (let n = (of_char c :: nat) in (48 \<le> n \<and> n \<le> 57) \<or> n = 178 \<or> n = 179 \<or> n = 185)"

definition is_word :: "char \<Rightarrow> bool" where
  "is_word c =
     (let n = (of_char c :: nat)
      in (48 \<le> n \<and> n \<le> 57) \<or> (65 \<le> n \<and> n \<le> 90) \<or> n = 95 \<or> (97 \<le> n \<and> n \<le> 122)
         \<or> n = 170 \<or> n = 178 \<or> n = 179 \<or> n = 181 \<or> n = 185 \<or> n = 186
         \<or> (188 \<le> n \<and> n \<le> 190) \<or> (192 \<le> n \<and> n \<le> 214) \<or> (216 \<le> n \<and> n \<le> 246)
         \<or> (248 \<le> n \<and> n \<le> 255))"

definition lstrip :: "string \<Rightarrow> string" where
  "lstrip s = dropWhile is_space s"

definition rstrip :: "string \<Rightarrow> string" where
  "rstrip s = rev (dropWhile is_space (rev s))"

definition strip :: "string \<Rightarrow> string" where
  "strip s = rstrip (lstrip s)"

definition lower_char :: "char \<Rightarrow> char" where
  "lower_char c =
     (let n = (of_char c :: nat)
      in if (65 \<le> n \<and> n \<le> 90) \<or> (192 \<le> n \<and> n \<le> 214) \<or> (216 \<le> n \<and> n \<le> 222)
         then char_of (n + 32) else c)"

definition lower :: "string \<Rightarrow> string" where
  "lower s = map lower_char s"

text \<open>\<open>s.split(d)\<close> for a one-character separator: never empty, \<open>''''.split(d) = ['''']\<close>.\<close>

fun split_on :: "char \<Rightarrow> string \<Rightarrow> string list" where
  "split_on d [] = [[]]"
| "split_on d (c # cs) =
     (if c = d then [] # split_on d cs
      else (let r = split_on d cs in (c # hd r) # tl r))"

definition NL :: char where
  "NL = CHR 0x0A"

definition split_lines :: "string \<Rightarrow> string list" where
  "split_lines s = split_on NL s"

text \<open>\<open>sep.join(xs)\<close>.\<close>

fun join :: "string \<Rightarrow> string list \<Rightarrow> string" where
  "join sep [] = []"
| "join sep [x] = x"
| "join sep (x # y # ys) = x @ sep @ join sep (y # ys)"

text \<open>\<open>sub in s\<close> and \<open>s.startswith(p)\<close>.\<close>

fun startswith :: "string \<Rightarrow> string \<Rightarrow> bool" where
  "startswith s [] = True"
| "startswith [] (p # ps) = False"
| "startswith (c # cs) (p # ps) = (c = p \<and> startswith cs ps)"

fun contains :: "string \<Rightarrow> string \<Rightarrow> bool" where
  "contains [] sub = (sub = [])"
| "contains (c # cs) sub = (startswith (c # cs) sub \<or> contains cs sub)"

text \<open>\<open>xs[:n]\<close> for a Python integer \<open>n\<close>: a negative bound counts from the end.\<close>

definition slice_to :: "'a list \<Rightarrow> int \<Rightarrow> 'a list" where
  "slice_to xs n = (if n < 0 then take (nat (int (length xs) + n)) xs else take (nat n) xs)"

text \<open>\<open>enumerate(xs, start=k)\<close>.\<close>

definition enumerate_from :: "nat \<Rightarrow> 'a list \<Rightarrow> (nat \<times> 'a) list" where
  "enumerate_from k xs = zip [k ..< k + length xs] xs"

section \<open>Question-block trimming (\<open>_trim_questions_to_exact_count\<close>)\<close>

text \<open>\<open>re.match(r'^\s*(\d+)[\.\)]\s+', line)\<close>: white space and digits are disjoint
  classes and neither contains \<open>.\<close> or \<open>)\<close>, so the greedy match is deterministic.\<close>

definition question_start :: "string \<Rightarrow> bool" where
  "question_start line =
     (let r = dropWhile is_space line;
          ds = takeWhile is_digit r;
          r2 = dropWhile is_digit r
      in ds \<noteq> [] \<and>
         (case r2 of [] \<Rightarrow> False
          | p # r3 \<Rightarrow> (p = CHR ''.'' \<or> p = CHR '')'') \<and>
              (case r3 of [] \<Rightarrow> False | w # _ \<Rightarrow> is_space w)))"

text \<open>\<open>re.match(r'^\s*\d+[\.\)]', line)\<close>, the test that ends the header.\<close>

definition numbered_prefix :: "string \<Rightarrow> bool" where
  "numbered_prefix line =
     (let r = dropWhile is_space line;
          ds = takeWhile is_digit r;
          r2 = dropWhile is_digit r
      in ds \<noteq> [] \<and>
         (case r2 of [] \<Rightarrow> False
          | p # _ \<Rightarrow> p = CHR ''.'' \<or> p = CHR '')''))"

text \<open>The three variables the scanning loop updates.\<close>

record scan_state =
  question_lines :: "string list"
  current_question :: "string list"
  in_question :: bool

definition scan_init :: scan_state where
  "scan_init = \<lparr>question_lines = [], current_question = [], in_question = False\<rparr>"

text \<open>One iteration of \<open>for line in lines\<close>.\<close>

definition scan_line :: "scan_state \<Rightarrow> string \<Rightarrow> scan_state" where
  "scan_line st line =
     (if question_start line then
        \<lparr>question_lines =
           (if current_question st \<noteq> []
            then question_lines st @ [join [NL] (current_question st)]
            else question_lines st),
         current_question = [line],
         in_question = True\<rparr>
      else if in_question st \<and> strip line \<noteq> [] then
        st\<lparr>current_question := current_question st @ [line]\<rparr>
      else if strip line = [] \<and> current_question st \<noteq> [] then
        \<lparr>question_lines = question_lines st @ [join [NL] (current_question st)],
         current_question = [],
         in_question = False\<rparr>
      else st)"

text \<open>The loop, followed by "don't forget the last question".\<close>

definition scan_finish :: "scan_state \<Rightarrow> string list" where
  "scan_finish st =
     (if current_question st \<noteq> []
      then question_lines st @ [join [NL] (current_question st)]
      else question_lines st)"

definition extract_questions :: "string \<Rightarrow> string list" where
  "extract_questions result_text = scan_finish (foldl scan_line scan_init (split_lines result_text))"

text \<open>"Trim to exact count": the list is cut only when it is longer than \<open>expected_count\<close>.\<close>

definition trim_question_lines :: "string list \<Rightarrow> int \<Rightarrow> string list" where
  "trim_question_lines qs expected_count =
     (if int (length qs) > expected_count then slice_to qs expected_count else qs)"

definition kept_questions :: "string \<Rightarrow> int \<Rightarrow> string list" where
  "kept_questions result_text expected_count =
     trim_question_lines (extract_questions result_text) expected_count"

definition header_lines :: "string \<Rightarrow> string list" where
  "header_lines result_text = takeWhile (\<lambda>line. \<not> numbered_prefix line) (split_lines result_text)"

definition trim_questions_to_exact_count :: "string \<Rightarrow> int \<Rightarrow> string" where
  "trim_questions_to_exact_count result_text expected_count =
     rstrip (join [NL] (header_lines result_text)) @ [NL, NL] @
     join [NL, NL] (kept_questions result_text expected_count)"

section \<open>Final assembly of a question block (\<open>format_output_final\<close>)\<close>

text \<open>\<open>str(n)\<close> for a natural number.\<close>

fun str_nat :: "nat \<Rightarrow> string" where
  "str_nat n = (if n < 10 then [char_of (48 + n)] else str_nat (n div 10) @ [char_of (48 + n mod 10)])"

declare str_nat.simps [simp del]

text \<open>\<open>s.isdigit()\<close>: non-empty and digits only.\<close>

definition isdigit :: "string \<Rightarrow> bool" where
  "isdigit s = (s \<noteq> [] \<and> list_all isdigit_char s)"

text \<open>\<open>line.split('. ', 1)\<close>: \<open>None\<close> when the separator does not occur (one part),
  otherwise the text before and after its first occurrence.\<close>

fun split_dot_space :: "string \<Rightarrow> (string \<times> string) option" where
  "split_dot_space [] = None"
| "split_dot_space [c] = None"
| "split_dot_space (c # d # cs) =
     (if c = CHR ''.'' \<and> d = CHR '' '' then Some ([], cs)
      else (case split_dot_space (d # cs) of
              None \<Rightarrow> None
            | Some (a, b) \<Rightarrow> Some (c # a, b)))"

text \<open>\<open>re.match(r'^\d+\W*\s*', s)\<close>: no match without a leading decimal digit; otherwise
  the match ends after the digits and every following non-word character (white space is
  not a word character, so nothing is left for \<open>\s*\<close>). The result is \<open>s[match.end():]\<close>.\<close>

definition after_number_token :: "string \<Rightarrow> string option" where
  "after_number_token s =
     (if takeWhile is_digit s = [] then None
      else Some (dropWhile (\<lambda>c. \<not> is_word c) (dropWhile is_digit s)))"

text \<open>The \<open>else\<close> branch of the loop body: "try stripping common numbering patterns manually".\<close>

definition strip_number_manually :: "string \<Rightarrow> string" where
  "strip_number_manually line =
     (let line_stripped = strip line in
      if line_stripped \<noteq> [] \<and> isdigit_char (hd line_stripped)
      then (case after_number_token line_stripped of
              Some rest \<Rightarrow> strip rest
            | None \<Rightarrow> line_stripped)
      else line_stripped)"

text \<open>The body of \<open>for line in cleaned_lines\<close>.\<close>

definition strip_numbering :: "string \<Rightarrow> string" where
  "strip_numbering line =
     (case split_dot_space line of
        Some (a, b) \<Rightarrow> if isdigit (strip a) then strip b else strip_number_manually line
      | None \<Rightarrow> strip_number_manually line)"

definition cleaned_lines :: "string \<Rightarrow> string \<Rightarrow> string list" where
  "cleaned_lines header content =
     filter (\<lambda>line. \<not> contains line (strip header) \<and> strip line \<noteq> [])
            (split_lines (strip content))"

definition formatted_questions :: "string \<Rightarrow> string \<Rightarrow> string list" where
  "formatted_questions header content = map strip_numbering (cleaned_lines header content)"

definition numbered_questions :: "string list \<Rightarrow> string list" where
  "numbered_questions qs = map (\<lambda>(idx, question). str_nat idx @ ''. '' @ question) (enumerate_from 1 qs)"

text \<open>The lines that one \<open>(header, content)\<close> pair adds to \<open>output_lines\<close>.\<close>

definition format_task_result :: "string \<Rightarrow> string \<Rightarrow> string list" where
  "format_task_result header content =
     (let content_str = strip content in
      if startswith (lower content_str) ''error executing task''
      then [NL # strip header, content_str]
      else (let qs = formatted_questions header content in
            if qs \<noteq> [] then (NL # strip header) # numbered_questions qs
            else if content_str \<noteq> []
            then [NL # strip header, ''[Task completed, but generated unexpected or unparseable output.]'']
            else [NL # strip header, ''[Task completed, generated no output content.]'']))"

text \<open>An item is kept verbatim when it is the newline-join of consecutive lines of the
  source text, the first of which opens a question (and so still carries its number).\<close>

definition verbatim_item :: "string list \<Rightarrow> string \<Rightarrow> bool" where
  "verbatim_item ls q =
     (\<exists>before seg after. ls = before @ seg @ after \<and> seg \<noteq> [] \<and> question_start (hd seg) \<and> q = join [NL] seg)"

text \<open>What the scanning loop maintains after reading the lines \<open>ls\<close>.\<close>

definition scan_inv :: "string list \<Rightarrow> scan_state \<Rightarrow> bool" where
  "scan_inv ls st =
     ((\<exists>before. ls = before @ current_question st)
      \<and> (in_question st \<longleftrightarrow> current_question st \<noteq> [])
      \<and> (current_question st \<noteq> [] \<longrightarrow> question_start (hd (current_question st)))
      \<and> (\<forall>q \<in> set (question_lines st). verbatim_item ls q))"

section \<open>Offline template generator\<close>

text \<open>The template lists of \<open>_generate_offline_individual_result\<close> and
  \<open>_generate_offline_comparison_result\<close>, in the order of the source.\<close>

definition asset_questions :: "string list" where
  "asset_questions =
     [''1. What specific trends and patterns can be identified in airline current assets over the 2013-2023 period?'',
      ''2. How do current asset levels correlate with seasonal variations in airline operations?'',
      ''3. What measurable insights can be extracted from current asset data to guide financial risk assessment?'',
      ''4. In what ways do current asset patterns reveal unexpected relationships or anomalies across different carriers?'',
      ''5. How can current asset information be leveraged to predict future financial stability for airline executives?'',
      ''6. What key performance indicators emerge from analyzing current asset trends for risk management?'',
      ''7. How do seasonal or temporal variations manifest in current asset data across different quarters?'',
      ''8. What factors contribute most significantly to the variations observed in current asset levels?'',
      ''9. In what ways can current asset data inform strategic business decisions for airline executives?'',
      ''10. How do different airline carriers compare in terms of current asset management efficiency?'',
      ''11. What are the critical current asset thresholds that indicate financial risk for airline operations?'',
      ''12. How do current asset trends differ between pre-COVID, during-COVID, and post-COVID periods?'',
      ''13. What current asset patterns can be used to identify airlines at risk of financial distress?'',
      ''14. How do current asset levels correlate with overall airline financial performance metrics?'',
      ''15. What actionable insights can executives derive from current asset analysis for strategic planning?'']"

definition liability_questions :: "string list" where
  "liability_questions =
     [''1. What specific trends and patterns can be identified in airline current liabilities over the 2013-2023 period?'',
      ''2. How do current liability levels correlate with seasonal variations in airline operations?'',
      ''3. What measurable insights can be extracted from current liability data to guide financial risk assessment?'',
      ''4. In what ways do current liability patterns reveal unexpected relationships or anomalies across different carriers?'',
      ''5. How can current liability information be leveraged to predict future financial stability for airline executives?'',
      ''6. What key performance indicators emerge from analyzing current liability trends for risk management?'',
      ''7. How do seasonal or temporal variations manifest in current liability data across different quarters?'',
      ''8. What factors contribute most significantly to the variations observed in current liability levels?'',
      ''9. In what ways can current liability data inform strategic business decisions for airline executives?'',
      ''10. How do different airline carriers compare in terms of current liability management efficiency?'',
      ''11. What are the critical current liability thresholds that indicate financial risk for airline operations?'',
      ''12. How do current liability trends differ between pre-COVID, during-COVID, and post-COVID periods?'',
      ''13. What current liability patterns can be used to identify airlines at risk of financial distress?'',
      ''14. How do current liability levels correlate with overall airline financial performance metrics?'',
      ''15. What actionable insights can executives derive from current liability analysis for strategic planning?'']"

definition ratio_questions :: "string list" where
  "ratio_questions =
     [''1. What specific trends and patterns can be identified in airline current ratios over the 2013-2023 period?'',
      ''2. How do current ratio levels correlate with seasonal variations in airline operations?'',
      ''3. What measurable insights can be extracted from current ratio data to guide financial risk assessment?'',
      ''4. In what ways do current ratio patterns reveal unexpected relationships or anomalies across different carriers?'',
      ''5. How can current ratio information be leveraged to predict future financial stability for airline executives?'',
      ''6. What key performance indicators emerge from analyzing current ratio trends for risk management?'',
      ''7. How do seasonal or temporal variations manifest in current ratio data across different quarters?'',
      ''8. What factors contribute most significantly to the variations observed in current ratio levels?'',
      ''9. In what ways can current ratio data inform strategic business decisions for airline executives?'',
      ''10. How do different airline carriers compare in terms of current ratio management efficiency?'',
      ''11. What are the critical current ratio thresholds that indicate financial risk for airline operations?'',
      ''12. How do current ratio trends differ between pre-COVID, during-COVID, and post-COVID periods?'',
      ''13. What current ratio patterns can be used to identify airlines at risk of financial distress?'',
      ''14. How do current ratio levels correlate with overall airline financial performance metrics?'',
      ''15. What actionable insights can executives derive from current ratio analysis for strategic planning?'']"

definition generic_questions :: "string \<Rightarrow> string list" where
  "generic_questions dataset_name =
     [''1. What specific trends and patterns can be identified in the '' @ dataset_name @ '' dataset over time?'',
      ''2. How do different variables in the '' @ dataset_name @ '' dataset correlate with each other?'',
      ''3. What measurable insights can be extracted from the '' @ dataset_name @ '' dataset to guide decision-making?'',
      ''4. In what ways do the data points in '' @ dataset_name @ '' reveal unexpected relationships or anomalies?'',
      ''5. How can the information in the '' @ dataset_name @ '' dataset be leveraged to predict future outcomes?'',
      ''6. What key performance indicators emerge from analyzing the '' @ dataset_name @ '' dataset?'',
      ''7. How do seasonal or temporal variations manifest in the '' @ dataset_name @ '' data?'',
      ''8. What factors contribute most significantly to the variations observed in '' @ dataset_name @ ''?'',
      ''9. In what ways can the '' @ dataset_name @ '' dataset inform strategic business decisions?'',
      ''10. How do different segments or categories within '' @ dataset_name @ '' compare in terms of key metrics?'',
      ''11. What are the critical thresholds that indicate risk in the '' @ dataset_name @ '' dataset?'',
      ''12. How do trends in '' @ dataset_name @ '' differ across different time periods?'',
      ''13. What patterns in '' @ dataset_name @ '' can be used to identify potential issues?'',
      ''14. How do '' @ dataset_name @ '' metrics correlate with overall performance indicators?'',
      ''15. What actionable insights can be derived from '' @ dataset_name @ '' analysis for strategic planning?'']"

definition comparison_questions :: "string list" where
  "comparison_questions =
     [''1. How do the key performance metrics compare across Assets.csv, Liabilities.csv, and Top_10_Ratio.csv?'',
      ''2. What are the significant differences in trends between the three airline financial datasets?'',
      ''3. Which dataset shows the strongest correlation patterns and why?'',
      ''4. How do the data quality and completeness compare across all three datasets?'',
      ''5. What insights emerge when analyzing all three datasets together for airline financial risk assessment?'',
      ''6. Which dataset contains the most actionable insights for financial analysis and executive decision-making?'',
      ''7. How do the temporal patterns differ between Assets, Liabilities, and Ratio datasets?'',
      ''8. What cross-dataset relationships can be identified for airline executives and risk management?'',
      ''9. Which dataset provides the most reliable predictions for future airline financial outcomes?'',
      ''10. How do the anomaly patterns compare across all three airline financial datasets?'']"

text \<open>The \<open>if "Assets" in dataset_name: ... elif ... else\<close> chain that selects the list.\<close>

definition individual_questions :: "string \<Rightarrow> string list" where
  "individual_questions dataset_name =
     (if contains dataset_name ''Assets'' then asset_questions
      else if contains dataset_name ''Liabilities'' then liability_questions
      else if contains dataset_name ''Ratio'' then ratio_questions
      else generic_questions dataset_name)"

text \<open>The \<open>context\<close> argument of both generators is never read and is left out.\<close>

definition generate_offline_individual_result :: "string \<Rightarrow> int \<Rightarrow> string" where
  "generate_offline_individual_result dataset_name num_questions =
     (''--- Enhanced Questions for '' @ dataset_name @ '' ---'') @ [NL, NL] @
     join [NL] (slice_to (individual_questions dataset_name) num_questions)"

definition generate_offline_comparison_result :: "int \<Rightarrow> string" where
  "generate_offline_comparison_result num_questions =
     ''--- Enhanced Comparison Questions ---'' @ [NL, NL] @
     join [NL] (slice_to comparison_questions num_questions)"

text \<open>Entry \<open>k\<close> (counted from 1) of a list starts with \<open>k\<close>, a full stop and a space.\<close>

definition numbered_from_one :: "string list \<Rightarrow> bool" where
  "numbered_from_one qs = list_all (\<lambda>(idx, q). startswith q (str_nat idx @ ''. '')) (enumerate_from 1 qs)"

section \<open>Ingestion (\<open>data_loader.py\<close>)\<close>

definition MAX_FILE_SIZE_MB :: real where
  "MAX_FILE_SIZE_MB = 500"

definition MAX_ROWS_DEFAULT :: nat where
  "MAX_ROWS_DEFAULT = 1000000"

definition LARGE_FILE_WARNING_MB :: real where
  "LARGE_FILE_WARNING_MB = 50"

text \<open>What the operating system answers about a path: \<open>os.path.exists\<close>,
  \<open>os.path.isfile\<close>, \<open>os.path.getsize\<close> (\<open>None\<close> when it raises) and the extension
  \<open>os.path.splitext(file_path)[1]\<close>.\<close>

record file_info =
  path_exists :: bool
  is_file :: bool
  size_bytes :: "nat option"
  extension :: string

text \<open>The six messages of \<open>check_file_safety\<close>, with the size in MB they print.\<close>

datatype safety_msg =
  File_not_found
| Path_is_not_a_file
| File_too_large real
| Large_file_warning real
| File_size_OK real
| Cannot_check_file_size

text \<open>The size in MB is \<open>file_size_bytes / (1024 * 1024)\<close>: a division by a power of two,
  exact in binary64 for every size below \<open>2^53\<close> bytes, so the real quotient is the value
  the source compares.\<close>

definition check_file_safety :: "file_info \<Rightarrow> bool \<times> safety_msg" where
  "check_file_safety f =
     (if \<not> path_exists f then (False, File_not_found)
      else if \<not> is_file f then (False, Path_is_not_a_file)
      else (case size_bytes f of
              None \<Rightarrow> (False, Cannot_check_file_size)
            | Some file_size_bytes \<Rightarrow>
                (let file_size_mb = real file_size_bytes / (1024 * 1024) in
                 if file_size_mb > MAX_FILE_SIZE_MB then (False, File_too_large file_size_mb)
                 else if file_size_mb > LARGE_FILE_WARNING_MB
                 then (True, Large_file_warning file_size_mb)
                 else (True, File_size_OK file_size_mb))))"

text \<open>\<open>"WARNING" in safety_msg\<close>, evaluated on the two messages that come with
  \<open>is_safe = True\<close>: only the large-file message holds the word.\<close>

fun mentions_WARNING :: "safety_msg \<Rightarrow> bool" where
  "mentions_WARNING (Large_file_warning mb) = True"
| "mentions_WARNING m = False"

datatype encoding = UTF_8 | Latin_1 | Windows_1252 | ISO_8859_1 | CP1252

definition encodings :: "encoding list" where
  "encodings = [UTF_8, Latin_1, Windows_1252, ISO_8859_1, CP1252]"

text \<open>The calls into pandas: \<open>read_csv\<close> with an encoding, \<open>read_csv\<close> with
  \<open>encoding='utf-8', errors='ignore'\<close>, \<open>read_excel\<close> and \<open>read_json\<close>.\<close>

datatype read_call = Csv encoding | Csv_utf8_errors_ignore | Excel | Json

record dataframe =
  n_rows :: nat
  n_columns :: nat

datatype read_exn = UnicodeDecodeError | TypeError | Other_read_error

datatype read_result = Loaded dataframe | Raised read_exn

text \<open>pandas is outside the repository: the result of each call, for a row limit, is a
  parameter of the model. \<open>TypeError\<close> is what a call with an argument that the function
  does not have raises.\<close>

type_synonym reader = "read_call \<Rightarrow> nat \<Rightarrow> read_result"

datatype load_error =
  ValueError_unsafe safety_msg
| ValueError_user_cancelled
| ValueError_unsupported_file_type string
| ValueError_empty_file
| Read_failed read_exn

text \<open>What the user sees and what is read, in order.\<close>

datatype event =
  Printed_warning safety_msg
| Prompted_continue
| Read read_call
| Printed_row_limit nat

text \<open>\<open>for encoding in encodings: try ... break / except UnicodeDecodeError: continue\<close>;
  the result is \<open>Inr None\<close> when \<open>df\<close> is still \<open>None\<close> after the loop.\<close>

fun try_encodings :: "reader \<Rightarrow> nat \<Rightarrow> encoding list \<Rightarrow> event list \<times> (read_exn + dataframe option)" where
  "try_encodings rd max_rows [] = ([], Inr None)"
| "try_encodings rd max_rows (e # es) =
     (case rd (Csv e) max_rows of
        Loaded df \<Rightarrow> ([Read (Csv e)], Inr (Some df))
      | Raised x \<Rightarrow>
          if x = UnicodeDecodeError
          then (let (evs, r) = try_encodings rd max_rows es in (Read (Csv e) # evs, r))
          else ([Read (Csv e)], Inl x))"

definition read_csv :: "reader \<Rightarrow> nat \<Rightarrow> event list \<times> (read_exn + dataframe)" where
  "read_csv rd max_rows =
     (case try_encodings rd max_rows encodings of
        (evs, Inl x) \<Rightarrow> (evs, Inl x)
      | (evs, Inr (Some df)) \<Rightarrow> (evs, Inr df)
      | (evs, Inr None) \<Rightarrow>
          (case rd Csv_utf8_errors_ignore max_rows of
             Loaded df \<Rightarrow> (evs @ [Read Csv_utf8_errors_ignore], Inr df)
           | Raised x \<Rightarrow> (evs @ [Read Csv_utf8_errors_ignore], Inl x)))"

definition read_by_extension :: "reader \<Rightarrow> nat \<Rightarrow> string \<Rightarrow> event list \<times> (load_error + dataframe)" where
  "read_by_extension rd max_rows ext =
     (if ext = ''.csv'' then
        (case read_csv rd max_rows of
           (evs, Inl x) \<Rightarrow> (evs, Inl (Read_failed x))
         | (evs, Inr df) \<Rightarrow> (evs, Inr df))
      else if ext = ''.xlsx'' then
        (case rd Excel max_rows of
           Loaded df \<Rightarrow> ([Read Excel], Inr df)
         | Raised x \<Rightarrow> ([Read Excel], Inl (Read_failed x)))
      else if ext = ''.json'' then
        (case rd Json max_rows of
           Loaded df \<Rightarrow> ([Read Json], Inr df)
         | Raised x \<Rightarrow> ([Read Json], Inl (Read_failed x)))
      else ([], Inl (ValueError_unsupported_file_type ext)))"

text \<open>\<open>df.empty\<close>: some axis has length 0.\<close>

definition df_empty :: "dataframe \<Rightarrow> bool" where
  "df_empty df = (n_rows df = 0 \<or> n_columns df = 0)"

text \<open>The part of \<open>read_file\<close> after the safety check: the extension, the row limit,
  the load, the row-limit warning and the empty-file error.\<close>

definition load_data :: "file_info \<Rightarrow> nat option \<Rightarrow> reader \<Rightarrow> event list \<times> (load_error + dataframe)" where
  "load_data f max_rows_arg rd =
     (let ext = lower (extension f);
          max_rows = (case max_rows_arg of None \<Rightarrow> MAX_ROWS_DEFAULT | Some m \<Rightarrow> m)
      in case read_by_extension rd max_rows ext of
           (evs, Inl err) \<Rightarrow> (evs, Inl err)
         | (evs, Inr df) \<Rightarrow>
             (let evs' = (if n_rows df = max_rows then evs @ [Printed_row_limit max_rows] else evs)
              in if df_empty df then (evs', Inl ValueError_empty_file) else (evs', Inr df)))"

text \<open>\<open>read_file(file_path, max_rows, interactive)\<close>; \<open>answer\<close> is what \<open>input()\<close>
  returns if the prompt is shown. Both \<open>except\<close> clauses re-raise, so an error leaves the
  function as it arose.\<close>

definition read_file :: "file_info \<Rightarrow> nat option \<Rightarrow> bool \<Rightarrow> string \<Rightarrow> reader \<Rightarrow> event list \<times> (load_error + dataframe)" where
  "read_file f max_rows_arg interactive answer rd =
     (case check_file_safety f of
        (False, safety_msg) \<Rightarrow> ([], Inl (ValueError_unsafe safety_msg))
      | (True, safety_msg) \<Rightarrow>
          if mentions_WARNING safety_msg then
            (if interactive then
               (let proceed = lower (strip answer) in
                if proceed \<noteq> ''y'' \<and> proceed \<noteq> ''yes''
                then ([Printed_warning safety_msg, Prompted_continue], Inl ValueError_user_cancelled)
                else (let (evs, r) = load_data f max_rows_arg rd
                      in (Printed_warning safety_msg # Prompted_continue # evs, r)))
             else (let (evs, r) = load_data f max_rows_arg rd
                   in (Printed_warning safety_msg # evs, r)))
          else load_data f max_rows_arg rd)"

text \<open>The encodings, in list order, on which the strict read raises \<open>UnicodeDecodeError\<close>
  before the first one that does anything else.\<close>

definition undecodable :: "reader \<Rightarrow> nat \<Rightarrow> encoding list" where
  "undecodable rd max_rows = takeWhile (\<lambda>e. rd (Csv e) max_rows = Raised UnicodeDecodeError) encodings"

text \<open>The pandas calls among the events, in order.\<close>

definition reads :: "event list \<Rightarrow> read_call list" where
  "reads evs = concat (map (\<lambda>ev. case ev of Read c \<Rightarrow> [c] | _ \<Rightarrow> []) evs)"

text \<open>No warning is printed and no question is asked.\<close>

definition silent :: "event list \<Rightarrow> bool" where
  "silent evs = list_all (\<lambda>ev. case ev of Printed_warning m \<Rightarrow> False | Prompted_continue \<Rightarrow> False | _ \<Rightarrow> True) evs"

section \<open>Column classification (\<open>data_analyzer.py\<close>)\<close>

text \<open>A statistic of a numeric series is the exact value of the \<open>int64\<close> or \<open>float64\<close>
  that pandas returns, or \<open>NaN\<close> (an empty or all-null series). Infinities and the
  negative zero are not modelled.\<close>

datatype number = Num rat | NaN

text \<open>Rounding of the fraction \<open>p / q\<close> to the nearest natural number, ties to even: the
  rounding of Python's \<open>f\<close> format, which is applied to the exact value.\<close>

definition round_half_even :: "nat \<Rightarrow> nat \<Rightarrow> nat" where
  "round_half_even p q =
     (let f = p div q; r = p mod q
      in if 2 * r < q then f else if q < 2 * r then f + 1 else if even f then f else f + 1)"

text \<open>The \<open>,\<close> option: a comma before every group of three digits, from the right.\<close>

fun group3 :: "string \<Rightarrow> string" where
  "group3 (a # b # c # d # rest) = a # b # c # CHR '','' # group3 (d # rest)"
| "group3 ds = ds"

definition group_thousands :: "string \<Rightarrow> string" where
  "group_thousands ds = rev (group3 (rev ds))"

definition zero_pad :: "nat \<Rightarrow> string \<Rightarrow> string" where
  "zero_pad w s = replicate (w - length s) (CHR ''0'') @ s"

text \<open>\<open>format(x, '.df')\<close> and, with grouping, \<open>format(x, ',.df')\<close>.\<close>

definition format_fixed :: "bool \<Rightarrow> nat \<Rightarrow> number \<Rightarrow> string" where
  "format_fixed grouping d x =
     (case x of
        NaN \<Rightarrow> ''nan''
      | Num v \<Rightarrow>
          (let (p, q) = quotient_of \<bar>v\<bar>;
               scaled = round_half_even (nat p * 10 ^ d) (nat q);
               int_part = str_nat (scaled div 10 ^ d);
               frac_part = zero_pad d (str_nat (scaled mod 10 ^ d))
           in (if v < 0 then ''-'' else []) @
              (if grouping then group_thousands int_part else int_part) @
              (if d = 0 then [] else ''.'' @ frac_part)))"

text \<open>\<open>int(x)\<close> truncates towards zero and raises \<open>ValueError\<close> on NaN.\<close>

definition py_int :: "number \<Rightarrow> int option" where
  "py_int x = (case x of NaN \<Rightarrow> None | Num v \<Rightarrow> Some (if v < 0 then - \<lfloor>- v\<rfloor> else \<lfloor>v\<rfloor>))"

definition str_int :: "int \<Rightarrow> string" where
  "str_int i = (if i < 0 then ''-'' else []) @ str_nat (nat \<bar>i\<bar>)"

text \<open>What \<open>_analyze_column_intelligently\<close> reads of \<open>column_name\<close> and \<open>series\<close>: the
  dtype and the answers of the pandas type predicates, \<open>len(series)\<close>,
  \<open>series.nunique()\<close>, the minimum, maximum and mean, the first mode as text (if there is
  one), the minimum and maximum of a datetime series as text, and the percentage of true
  values with its complement as the source's floating-point arithmetic yields them.
  \<open>null_percentage\<close> is computed by the source and never used.\<close>

record column =
  column_name :: string
  dtype :: string
  is_numeric_dtype :: bool
  is_object_dtype :: bool
  is_categorical_dtype :: bool
  is_datetime64_any_dtype :: bool
  is_bool_dtype :: bool
  total_count :: nat
  unique_count :: nat
  min_val :: number
  max_val :: number
  mean_val :: number
  mode_value :: "string option"
  min_date :: string
  max_date :: string
  true_percentage :: number
  false_percentage :: number

datatype category =
  Temporal_year | Temporal_quarter | Temporal_month | Temporal_day
| Financial_ratio | Financial_revenue | Financial_cost | Financial_balance_sheet
| Financial_profitability | Identifier | Generic_numeric
| Categorical_label | Categorical_classification | Categorical_status
| Categorical_geography | Generic_categorical
| Datetime_field | Boolean_flag | Unresolved

datatype analysis_error = ValueError_cannot_convert_NaN_to_integer

text \<open>\<open>any(term in name_lower for term in terms)\<close>.\<close>

definition any_in :: "string \<Rightarrow> string list \<Rightarrow> bool" where
  "any_in name_lower terms = list_ex (\<lambda>term. contains name_lower term) terms"

definition top_value_str :: "column \<Rightarrow> string" where
  "top_value_str c = (case mode_value c of None \<Rightarrow> ''N/A'' | Some v \<Rightarrow> v)"

definition true_pct :: "column \<Rightarrow> number" where
  "true_pct c = (if total_count c > 0 then true_percentage c else Num 0)"

definition false_pct :: "column \<Rightarrow> number" where
  "false_pct c = (if total_count c > 0 then false_percentage c else Num 100)"

text \<open>The branch for numeric dtypes: each \<open>return\<close> of the source, tagged with the
  semantic category that the branch stands for.\<close>

definition analyze_numeric :: "column \<Rightarrow> category \<times> (analysis_error + string)" where
  "analyze_numeric c =
     (let name_lower = lower (column_name c) in
      if any_in name_lower [''year'', ''yr''] then
        (Temporal_year,
         (case (py_int (min_val c), py_int (max_val c)) of
            (Some lo, Some hi) \<Rightarrow> Inr (''Temporal identifier representing calendar year. Range: '' @ str_int lo @ ''-'' @ str_int hi @ ''. Used for time-series analysis and year-over-year comparisons.'')
          | _ \<Rightarrow> Inl ValueError_cannot_convert_NaN_to_integer))
      else if any_in name_lower [''quarter'', ''qtr'', ''q''] then
        (Temporal_quarter, Inr (''Quarterly time period identifier (1-4). Enables seasonal analysis and quarterly performance tracking.''))
      else if any_in name_lower [''month'', ''mon''] then
        (Temporal_month, Inr (''Monthly identifier (1-12). Supports monthly trend analysis and seasonal pattern detection.''))
      else if any_in name_lower [''day'', ''date''] then
        (Temporal_day, Inr (''Daily identifier. Supports granular time-series analysis and day-level patterns.''))
      else if any_in name_lower [''ratio'', ''rate'', ''percent'', ''pct''] then
        (Financial_ratio, Inr (''Financial ratio/rate metric. Range: '' @ format_fixed False 2 (min_val c) @ '' to '' @ format_fixed False 2 (max_val c) @ '', Avg: '' @ format_fixed False 2 (mean_val c) @ ''. Used for financial health assessment and comparative analysis.''))
      else if any_in name_lower [''revenue'', ''sales'', ''income''] then
        (Financial_revenue, Inr (''Revenue/income metric. Range: '' @ format_fixed True 0 (min_val c) @ '' to '' @ format_fixed True 0 (max_val c) @ ''. Key performance indicator for financial performance evaluation.''))
      else if any_in name_lower [''cost'', ''expense'', ''expenditure''] then
        (Financial_cost, Inr (''Cost/expense metric. Range: '' @ format_fixed True 0 (min_val c) @ '' to '' @ format_fixed True 0 (max_val c) @ ''. Used for cost analysis and budgeting.''))
      else if any_in name_lower [''asset'', ''liability'', ''equity''] then
        (Financial_balance_sheet, Inr (''Balance sheet item. Range: '' @ format_fixed True 0 (min_val c) @ '' to '' @ format_fixed True 0 (max_val c) @ ''. Critical for financial position analysis.''))
      else if any_in name_lower [''profit'', ''margin'', ''earnings''] then
        (Financial_profitability, Inr (''Profitability metric. Range: '' @ format_fixed False 2 (min_val c) @ '' to '' @ format_fixed False 2 (max_val c) @ ''. Measures business profitability and operational efficiency.''))
      else if unique_count c = total_count c \<or> contains name_lower ''id'' then
        (Identifier, Inr (''Unique identifier with '' @ group_thousands (str_nat (unique_count c)) @ '' distinct values. Used for record identification and data joining.''))
      else
        (Generic_numeric, Inr (''Numeric metric. Range: '' @ format_fixed True 2 (min_val c) @ '' to '' @ format_fixed True 2 (max_val c) @ '', Mean: '' @ format_fixed True 2 (mean_val c) @ ''. '' @ group_thousands (str_nat (unique_count c)) @ '' unique values.'')))"

text \<open>The branch for object and categorical dtypes.\<close>

definition analyze_categorical :: "column \<Rightarrow> category \<times> (analysis_error + string)" where
  "analyze_categorical c =
     (let name_lower = lower (column_name c) in
      if any_in name_lower [''id'', ''code'', ''key'', ''carrier'', ''ticker'', ''symbol''] then
        (Identifier, Inr (''Categorical identifier. '' @ str_nat (unique_count c) @ '' unique values (e.g., '' @ [CHR 0x27] @ top_value_str c @ [CHR 0x27] @ ''). Used for grouping and entity identification.''))
      else if any_in name_lower [''name'', ''title'', ''label''] then
        (Categorical_label, Inr (''Descriptive name/label field. '' @ str_nat (unique_count c) @ '' unique values. Used for display and reference purposes.''))
      else if any_in name_lower [''category'', ''type'', ''class'', ''group''] then
        (Categorical_classification, Inr (''Classification/category field. '' @ str_nat (unique_count c) @ '' categories (most common: '' @ [CHR 0x27] @ top_value_str c @ [CHR 0x27] @ ''). Enables segmentation and comparative analysis.''))
      else if any_in name_lower [''status'', ''state'', ''flag''] then
        (Categorical_status, Inr (''Status/state indicator. '' @ str_nat (unique_count c) @ '' possible states (e.g., '' @ [CHR 0x27] @ top_value_str c @ [CHR 0x27] @ ''). Tracks entity state or condition.''))
      else if any_in name_lower [''location'', ''region'', ''city'', ''country''] then
        (Categorical_geography, Inr (''Geographic identifier. '' @ str_nat (unique_count c) @ '' locations. Supports geographic analysis and regional comparisons.''))
      else
        (Generic_categorical, Inr (''Categorical text field. '' @ str_nat (unique_count c) @ '' unique values (most common: '' @ [CHR 0x27] @ top_value_str c @ [CHR 0x27] @ ''). Useful for grouping and filtering.'')))"

text \<open>The dispatch on the dtype, in the order of the source.\<close>

definition analyze_column :: "column \<Rightarrow> category \<times> (analysis_error + string)" where
  "analyze_column c =
     (if is_numeric_dtype c then analyze_numeric c
      else if is_object_dtype c \<or> is_categorical_dtype c then analyze_categorical c
      else if is_datetime64_any_dtype c then
        (Datetime_field, Inr (''Datetime field. Range: '' @ min_date c @ '' to '' @ max_date c @ ''. Enables temporal analysis and time-based filtering.''))
      else if is_bool_dtype c then
        (Boolean_flag, Inr (''Boolean flag. '' @ format_fixed False 1 (true_pct c) @ ''% True, '' @ format_fixed False 1 (false_pct c) @ ''% False. Used for binary classification and filtering.''))
      else
        (Unresolved, Inr (''Data field of type '' @ dtype c @ ''. '' @ str_nat (unique_count c) @ '' unique values. Requires domain knowledge for interpretation.'')))"

definition semantic_category :: "column \<Rightarrow> category" where
  "semantic_category c = fst (analyze_column c)"

text \<open>The value of \<open>_analyze_column_intelligently(column_name, series)\<close>.\<close>

definition analyze_column_intelligently :: "column \<Rightarrow> analysis_error + string" where
  "analyze_column_intelligently c = snd (analyze_column c)"

text \<open>A numeric series of integers without nulls, with the statistics pandas computes
  from it (the mean as the exact quotient).\<close>

definition int_series :: "string \<Rightarrow> int list \<Rightarrow> column" where
  "int_series name vs =
     \<lparr>column_name = name, dtype = ''int64'',
      is_numeric_dtype = True, is_object_dtype = False, is_categorical_dtype = False,
      is_datetime64_any_dtype = False, is_bool_dtype = False,
      total_count = length vs, unique_count = length (remdups vs),
      min_val = (if vs = [] then NaN else Num (of_int (fold min (tl vs) (hd vs)))),
      max_val = (if vs = [] then NaN else Num (of_int (fold max (tl vs) (hd vs)))),
      mean_val = (if vs = [] then NaN else Num (of_int (sum_list vs) / of_nat (length vs))),
      mode_value = None, min_date = [], max_date = [],
      true_percentage = NaN, false_percentage = NaN\<rparr>"

text \<open>A series of texts (dtype \<open>object\<close>) with the given counts and first mode.\<close>

definition text_series :: "string \<Rightarrow> nat \<Rightarrow> nat \<Rightarrow> string option \<Rightarrow> column" where
  "text_series name n_total n_unique first_mode =
     \<lparr>column_name = name, dtype = ''object'',
      is_numeric_dtype = False, is_object_dtype = True, is_categorical_dtype = False,
      is_datetime64_any_dtype = False, is_bool_dtype = False,
      total_count = n_total, unique_count = n_unique,
      min_val = NaN, max_val = NaN, mean_val = NaN,
      mode_value = first_mode, min_date = [], max_date = [],
      true_percentage = NaN, false_percentage = NaN\<rparr>"

text \<open>The name keywords that the numeric branch tests before the identifier rule.\<close>

definition temporal_financial_terms :: "string list" where
  "temporal_financial_terms =
     [''year'', ''yr'', ''quarter'', ''qtr'', ''q'', ''month'', ''mon'', ''day'', ''date'',
      ''ratio'', ''rate'', ''percent'', ''pct'', ''revenue'', ''sales'', ''income'',
      ''cost'', ''expense'', ''expenditure'', ''asset'', ''liability'', ''equity'',
      ''profit'', ''margin'', ''earnings'']"

section \<open>Properties of the trimming\<close>

lemma slice_to_nonneg: "0 \<le> n \<Longrightarrow> slice_to xs n = take (nat n) xs"
  by (simp add: slice_to_def)

lemma verbatim_item_mono: "verbatim_item ls q \<Longrightarrow> verbatim_item (ls @ ls') q"
  unfolding verbatim_item_def by (metis append.assoc)

lemma suffix_verbatim:
  "ls = before @ cur \<Longrightarrow> cur \<noteq> [] \<Longrightarrow> question_start (hd cur) \<Longrightarrow> verbatim_item (ls @ ls') (join [NL] cur)"
  unfolding verbatim_item_def by (metis append.assoc)

lemma scan_line_inv:
  assumes "scan_inv ls st"
  shows "scan_inv (ls @ [l]) (scan_line st l)"
proof -
  obtain before where s: "ls = before @ current_question st"
    using assms by (auto simp: scan_inv_def)
  have i: "in_question st \<longleftrightarrow> current_question st \<noteq> []"
    and h: "current_question st \<noteq> [] \<longrightarrow> question_start (hd (current_question st))"
    and q: "\<forall>q \<in> set (question_lines st). verbatim_item ls q"
    using assms by (auto simp: scan_inv_def)
  have q': "\<forall>q \<in> set (question_lines st). verbatim_item (ls @ [l]) q"
    using q verbatim_item_mono by blast
  have c': "current_question st \<noteq> [] \<Longrightarrow> verbatim_item (ls @ [l]) (join [NL] (current_question st))"
    using s h suffix_verbatim by blast
  show ?thesis
  proof (cases "question_start l")
    case True
    then show ?thesis
      unfolding scan_inv_def scan_line_def using q' c' by auto
  next
    case False
    note nq = this
    show ?thesis
    proof (cases "in_question st \<and> strip l \<noteq> []")
      case True
      then show ?thesis
        unfolding scan_inv_def scan_line_def using nq q' s i h by auto
    next
      case False
      then show ?thesis
        unfolding scan_inv_def scan_line_def using nq q' c' s i h by auto
    qed
  qed
qed

lemma foldl_scan_inv:
  "scan_inv ls st \<Longrightarrow> scan_inv (ls @ rest) (foldl scan_line st rest)"
proof (induction rest arbitrary: ls st)
  case Nil
  then show ?case by simp
next
  case (Cons l rest)
  from Cons.prems have "scan_inv (ls @ [l]) (scan_line st l)" by (rule scan_line_inv)
  from Cons.IH [OF this] show ?case by simp
qed

lemma scan_init_inv: "scan_inv [] scan_init"
  by (simp add: scan_inv_def scan_init_def)

lemma extract_questions_verbatim:
  assumes "q \<in> set (extract_questions text)"
  shows "verbatim_item (split_lines text) q"
proof -
  let ?st = "foldl scan_line scan_init (split_lines text)"
  have i: "scan_inv (split_lines text) ?st"
    using foldl_scan_inv [OF scan_init_inv, of "split_lines text"] by simp
  then have "current_question ?st \<noteq> [] \<Longrightarrow> verbatim_item (split_lines text) (join [NL] (current_question ?st))"
    using suffix_verbatim [of "split_lines text" _ "current_question ?st" "[]"] by (auto simp: scan_inv_def)
  with i assms show ?thesis
    by (auto simp: extract_questions_def scan_finish_def scan_inv_def split: if_splits)
qed

lemma set_slice_to: "x \<in> set (slice_to xs n) \<Longrightarrow> x \<in> set xs"
  by (auto simp: slice_to_def dest: in_set_takeD split: if_splits)

lemma kept_subset: "q \<in> set (kept_questions text n) \<Longrightarrow> q \<in> set (extract_questions text)"
  by (auto simp: kept_questions_def trim_question_lines_def dest: set_slice_to split: if_splits)

text \<open>
  C1, as stated, fails in its last part: the trimming does not renumber. For the text
  \<open>"5. a\n9. b\n12. c"\<close> and a requested count of 2 the returned block holds the two
  items numbered 5 and 9, not 1 and 2.
\<close>

theorem trim_does_not_renumber_counterexample:
  "kept_questions ''5. a\<newline>9. b\<newline>12. c'' 2 = [''5. a'', ''9. b'']
   \<and> \<not> numbered_from_one (kept_questions ''5. a\<newline>9. b\<newline>12. c'' 2)
   \<and> trim_questions_to_exact_count ''5. a\<newline>9. b\<newline>12. c'' 2 = ''\<newline>\<newline>5. a\<newline>\<newline>9. b''"
  by code_simp

text \<open>
  C1, amended. For every text and every requested count \<open>n \<ge> 1\<close>, when at least \<open>n\<close>
  items are extracted the returned block contains exactly \<open>n\<close> items, namely the first
  \<open>n\<close> extracted items in order of first appearance (the excess is discarded); every
  item is kept verbatim, as the newline-join of consecutive lines of the input beginning
  with its numbered line, so it carries the number it had in the input; the returned text
  is the header followed by these items.
\<close>

theorem trim_keeps_first_requested:
  assumes "1 \<le> n" and "n \<le> int (length (extract_questions result_text))"
  shows "kept_questions result_text n = take (nat n) (extract_questions result_text)
       \<and> length (kept_questions result_text n) = nat n
       \<and> (\<forall>k < nat n. kept_questions result_text n ! k = extract_questions result_text ! k)
       \<and> (\<forall>q \<in> set (kept_questions result_text n). verbatim_item (split_lines result_text) q)
       \<and> trim_questions_to_exact_count result_text n =
           rstrip (join [NL] (header_lines result_text)) @ [NL, NL] @
           join [NL, NL] (take (nat n) (extract_questions result_text))"
proof -
  have k: "kept_questions result_text n = take (nat n) (extract_questions result_text)"
    using assms by (auto simp: kept_questions_def trim_question_lines_def slice_to_nonneg)
  have l: "length (kept_questions result_text n) = nat n"
    using assms by (simp add: k)
  have i: "\<forall>k < nat n. kept_questions result_text n ! k = extract_questions result_text ! k"
    by (simp add: k)
  have v: "\<forall>q \<in> set (kept_questions result_text n). verbatim_item (split_lines result_text) q"
    using kept_subset extract_questions_verbatim by blast
  have t: "trim_questions_to_exact_count result_text n =
           rstrip (join [NL] (header_lines result_text)) @ [NL, NL] @
           join [NL, NL] (take (nat n) (extract_questions result_text))"
    by (simp add: trim_questions_to_exact_count_def k)
  show ?thesis
    using k l i v t by blast
qed

theorem trim_keeps_first_requested_witness:
  "(1::int) \<le> 2
   \<and> 2 \<le> int (length (extract_questions ''5. a\<newline>9. b\<newline>12. c''))
   \<and> kept_questions ''5. a\<newline>9. b\<newline>12. c'' 2 = [''5. a'', ''9. b'']
   \<and> length (kept_questions ''5. a\<newline>9. b\<newline>12. c'' 2) = 2
   \<and> (1::nat) < nat 2
   \<and> kept_questions ''5. a\<newline>9. b\<newline>12. c'' 2 ! 1 = extract_questions ''5. a\<newline>9. b\<newline>12. c'' ! 1
   \<and> ''9. b'' \<in> set (kept_questions ''5. a\<newline>9. b\<newline>12. c'' 2)
   \<and> verbatim_item (split_lines ''5. a\<newline>9. b\<newline>12. c'') ''9. b''"
proof -
  have e: "extract_questions ''5. a\<newline>9. b\<newline>12. c'' = [''5. a'', ''9. b'', ''12. c'']"
    by code_simp
  note t = trim_keeps_first_requested [of 2 "''5. a\<newline>9. b\<newline>12. c''"]
  have h: "(1::int) \<le> 2 \<and> 2 \<le> int (length (extract_questions ''5. a\<newline>9. b\<newline>12. c''))"
    by (simp add: e)
  have k: "kept_questions ''5. a\<newline>9. b\<newline>12. c'' 2 = [''5. a'', ''9. b'']"
    using t h by (simp add: e)
  have i: "kept_questions ''5. a\<newline>9. b\<newline>12. c'' 2 ! 1 = extract_questions ''5. a\<newline>9. b\<newline>12. c'' ! 1"
    using t h by simp
  have m: "''9. b'' \<in> set (kept_questions ''5. a\<newline>9. b\<newline>12. c'' 2)"
    by (simp add: k)
  have v: "verbatim_item (split_lines ''5. a\<newline>9. b\<newline>12. c'') ''9. b''"
    using t h m by blast
  show ?thesis
    using h k i m v by simp
qed

text \<open>
  C2. When fewer items are extracted than requested, nothing is cut and nothing is added:
  the kept items are exactly the extracted ones and the returned text is built from them.
  The functions are total on every text and every integer count (no branch of the source
  raises). For \<open>"1) Alpha\n2) Beta\n3) Gamma"\<close> and a requested count of 5 the block has
  the three items of the text.
\<close>

theorem short_extraction_is_returned_whole:
  "(int (length (extract_questions text)) < n \<longrightarrow>
      kept_questions text n = extract_questions text
      \<and> trim_questions_to_exact_count text n =
          rstrip (join [NL] (header_lines text)) @ [NL, NL] @
          join [NL, NL] (extract_questions text))
   \<and> kept_questions ''1) Alpha\<newline>2) Beta\<newline>3) Gamma'' 5
       = [''1) Alpha'', ''2) Beta'', ''3) Gamma'']
   \<and> length (kept_questions ''1) Alpha\<newline>2) Beta\<newline>3) Gamma'' 5) = 3
   \<and> trim_questions_to_exact_count ''1) Alpha\<newline>2) Beta\<newline>3) Gamma'' 5
       = ''\<newline>\<newline>1) Alpha\<newline>\<newline>2) Beta\<newline>\<newline>3) Gamma''"
proof -
  have g: "int (length (extract_questions text)) < n \<longrightarrow>
      kept_questions text n = extract_questions text
      \<and> trim_questions_to_exact_count text n =
          rstrip (join [NL] (header_lines text)) @ [NL, NL] @
          join [NL, NL] (extract_questions text)"
    by (simp add: kept_questions_def trim_question_lines_def trim_questions_to_exact_count_def)
  have k: "kept_questions ''1) Alpha\<newline>2) Beta\<newline>3) Gamma'' 5
       = [''1) Alpha'', ''2) Beta'', ''3) Gamma'']"
    by code_simp
  have t: "trim_questions_to_exact_count ''1) Alpha\<newline>2) Beta\<newline>3) Gamma'' 5
       = ''\<newline>\<newline>1) Alpha\<newline>\<newline>2) Beta\<newline>\<newline>3) Gamma''"
    by code_simp
  show ?thesis
    using g k t by simp
qed

theorem short_extraction_is_returned_whole_witness:
  "int (length (extract_questions ''1) Alpha\<newline>2) Beta\<newline>3) Gamma'')) < 5
   \<and> kept_questions ''1) Alpha\<newline>2) Beta\<newline>3) Gamma'' 5
       = extract_questions ''1) Alpha\<newline>2) Beta\<newline>3) Gamma''"
proof -
  have e: "extract_questions ''1) Alpha\<newline>2) Beta\<newline>3) Gamma''
       = [''1) Alpha'', ''2) Beta'', ''3) Gamma'']"
    by code_simp
  show ?thesis
    using short_extraction_is_returned_whole [of "''1) Alpha\<newline>2) Beta\<newline>3) Gamma''" 5]
    by (simp add: e)
qed

section \<open>Properties of the final assembly\<close>

lemma isdigit_char_not_dot: "isdigit_char c \<Longrightarrow> c \<noteq> CHR ''.''"
  by (auto simp: isdigit_char_def)

lemma split_dot_space_digits:
  "list_all isdigit_char ds \<Longrightarrow> split_dot_space (ds @ ''. '' @ body) = Some (ds, body)"
proof (induction ds)
  case Nil
  then show ?case by simp
next
  case (Cons d ds)
  then have "d \<noteq> CHR ''.''" by (simp add: isdigit_char_not_dot)
  with Cons show ?case by (cases ds) auto
qed

lemma isdigit_char_not_space: "isdigit_char c \<Longrightarrow> \<not> is_space c"
  by (auto simp: isdigit_char_def is_space_def Let_def)

lemma is_digit_isdigit_char: "is_digit c \<Longrightarrow> isdigit_char c"
  by (auto simp: isdigit_char_def is_digit_def Let_def)

lemma dropWhile_no_space: "\<forall>c \<in> set s. \<not> is_space c \<Longrightarrow> dropWhile is_space s = s"
  by (cases s) auto

lemma strip_digits: "list_all isdigit_char ds \<Longrightarrow> strip ds = ds"
proof -
  assume "list_all isdigit_char ds"
  then have n: "\<forall>c \<in> set ds. \<not> is_space c"
    by (auto simp: list_all_iff isdigit_char_not_space)
  then have "\<forall>c \<in> set (rev ds). \<not> is_space c" by simp
  then have "dropWhile is_space (rev ds) = rev ds" by (rule dropWhile_no_space)
  with n show ?thesis
    by (simp add: strip_def lstrip_def rstrip_def dropWhile_no_space)
qed

lemma strip_numbering_dot:
  "isdigit ds \<Longrightarrow> strip_numbering (ds @ ''. '' @ body) = strip body"
  unfolding strip_numbering_def isdigit_def
  using split_dot_space_digits [of ds body] strip_digits [of ds] by simp

lemma rstrip_append_nonspace: "\<not> is_space c \<Longrightarrow> rstrip (a @ c # b) = a @ c # rstrip b"
  by (simp add: rstrip_def dropWhile_append)

lemma strip_number_paren:
  assumes "ds \<noteq> []" and "list_all is_digit ds"
  shows "strip (ds @ CHR '')'' # b) = ds @ CHR '')'' # rstrip b"
proof -
  have p: "\<not> is_space (CHR '')'')"
    by (simp add: is_space_def)
  have "\<not> is_space (hd ds)"
    using assms by (cases ds) (auto simp: is_digit_isdigit_char isdigit_char_not_space)
  then have "lstrip (ds @ CHR '')'' # b) = ds @ CHR '')'' # b"
    using assms(1) by (cases ds) (auto simp: lstrip_def)
  then show ?thesis
    by (simp add: strip_def rstrip_append_nonspace p)
qed

lemma split_dot_space_paren:
  "list_all is_digit ds \<Longrightarrow>
   split_dot_space (ds @ CHR '')'' # body) = None
   \<or> (\<exists>a b. split_dot_space (ds @ CHR '')'' # body) = Some (ds @ CHR '')'' # a, b))"
proof (induction ds)
  case Nil
  show ?case by (cases body) (auto split: option.splits)
next
  case (Cons d ds)
  then have d: "d \<noteq> CHR ''.''"
    by (simp add: is_digit_isdigit_char isdigit_char_not_dot)
  obtain x xs where e: "ds @ CHR '')'' # body = x # xs"
    by (cases "ds @ CHR '')'' # body") auto
  from Cons have "split_dot_space (x # xs) = None
      \<or> (\<exists>a b. split_dot_space (x # xs) = Some (ds @ CHR '')'' # a, b))"
    by (simp add: e)
  then show ?case
    using d by (auto simp: e)
qed

lemma not_isdigit_with_paren:
  assumes "ds \<noteq> []" and "list_all is_digit ds"
  shows "\<not> isdigit (strip (ds @ CHR '')'' # a))"
proof -
  have "\<not> isdigit_char (CHR '')'')"
    by (simp add: isdigit_char_def)
  then show ?thesis
    unfolding strip_number_paren [OF assms] isdigit_def by simp
qed

lemma takeWhile_digits_paren:
  "list_all is_digit ds \<Longrightarrow> takeWhile is_digit (ds @ CHR '')'' # r) = ds"
  by (induction ds) (simp_all add: is_digit_def)

lemma dropWhile_digits_paren:
  "list_all is_digit ds \<Longrightarrow> dropWhile is_digit (ds @ CHR '')'' # r) = CHR '')'' # r"
  by (induction ds) (simp_all add: is_digit_def)

lemma strip_number_manually_paren:
  assumes "ds \<noteq> []" and "list_all is_digit ds"
  shows "strip_number_manually (ds @ CHR '')'' # body)
       = strip (dropWhile (\<lambda>c. \<not> is_word c) (rstrip body))"
proof -
  have h: "isdigit_char (hd (ds @ CHR '')'' # rstrip body))"
    using assms by (cases ds) (auto simp: is_digit_isdigit_char)
  have w: "\<not> is_word (CHR '')'')"
    by (simp add: is_word_def)
  show ?thesis
    unfolding strip_number_manually_def Let_def strip_number_paren [OF assms]
      after_number_token_def takeWhile_digits_paren [OF assms(2)]
      dropWhile_digits_paren [OF assms(2)]
    using assms(1) h w by simp
qed

lemma strip_numbering_paren:
  assumes "ds \<noteq> []" and "list_all is_digit ds"
  shows "strip_numbering (ds @ CHR '')'' # body)
       = strip (dropWhile (\<lambda>c. \<not> is_word c) (rstrip body))"
proof -
  from split_dot_space_paren [OF assms(2), of body]
  show ?thesis
  proof
    assume "split_dot_space (ds @ CHR '')'' # body) = None"
    then show ?thesis
      by (simp add: strip_numbering_def strip_number_manually_paren [OF assms])
  next
    assume "\<exists>a b. split_dot_space (ds @ CHR '')'' # body) = Some (ds @ CHR '')'' # a, b)"
    then obtain a b where "split_dot_space (ds @ CHR '')'' # body) = Some (ds @ CHR '')'' # a, b)"
      by blast
    then show ?thesis
      using not_isdigit_with_paren [OF assms, of a]
      by (simp add: strip_numbering_def strip_number_manually_paren [OF assms])
  qed
qed

lemma enumerate_from_map:
  "enumerate_from k (map f xs) = map (\<lambda>(i, x). (i, f x)) (enumerate_from k xs)"
  by (simp add: enumerate_from_def zip_map2)

lemma numbered_questions_map:
  "numbered_questions (map f ls)
     = map (\<lambda>(idx, line). str_nat idx @ ''. '' @ f line) (enumerate_from 1 ls)"
  by (simp add: numbered_questions_def enumerate_from_map split_def)

lemma format_task_result_entries:
  assumes "\<not> startswith (lower (strip content)) ''error executing task''"
    and "cleaned_lines header content \<noteq> []"
  shows "format_task_result header content =
     (NL # strip header) #
     map (\<lambda>(idx, line). str_nat idx @ ''. '' @ strip_numbering line)
         (enumerate_from 1 (cleaned_lines header content))"
  using assms
  by (simp add: format_task_result_def formatted_questions_def numbered_questions_map Let_def)

lemma format_task_result_error:
  "startswith (lower (strip content)) ''error executing task'' \<Longrightarrow>
   format_task_result header content = [NL # strip header, strip content]"
  by (simp add: format_task_result_def Let_def)

lemma enumerate_from_nth:
  "k < length xs \<Longrightarrow> enumerate_from 1 xs ! k = (Suc k, xs ! k)"
  by (simp add: enumerate_from_def del: upt_Suc)

lemma enumerate_from_length: "length (enumerate_from k xs) = length xs"
  by (simp add: enumerate_from_def del: upt_Suc)

text \<open>
  C3, as stated, fails on the example: for
  \<open>"1. First question\n\n2. Second\nquestion continued\n\n3. Third"\<close> and a requested count
  of 2, neither the kept items of the trimmed block nor the entries that the final assembly
  numbers are \<open>["First question", "Second question continued"]\<close>; the final assembly has
  three entries.
\<close>

theorem normalizer_example_counterexample:
  "kept_questions ''1. First question\<newline>\<newline>2. Second\<newline>question continued\<newline>\<newline>3. Third'' 2 \<noteq> [''First question'', ''Second question continued'']
   \<and> formatted_questions ''--- Enhanced Questions for Assets.csv ---'' (trim_questions_to_exact_count ''1. First question\<newline>\<newline>2. Second\<newline>question continued\<newline>\<newline>3. Third'' 2)
       \<noteq> [''First question'', ''Second question continued'']
   \<and> formatted_questions ''--- Enhanced Questions for Assets.csv ---'' (trim_questions_to_exact_count ''1. First question\<newline>\<newline>2. Second\<newline>question continued\<newline>\<newline>3. Third'' 2)
       = [''First question'', ''Second'', ''question continued'']"
  by code_simp

text \<open>
  C3, amended. The trimming keeps every item verbatim, numbering token included, as the
  newline-join of consecutive lines of the input. The final assembly of a block whose
  stripped content does not start with \<open>error executing task\<close> (in any letter case)
  works line by line: its entries are the lines of the stripped content that are not blank
  and do not contain the stripped header, in order; the leading numbering token is
  stripped from each entry (\<open>N. body\<close> gives the stripped body, \<open>N) body\<close> gives the body
  without the digits and the non-word characters after them), and the entries are numbered
  1, 2, ... whatever numbers they carried. A continuation line of a multi-line item is
  therefore an entry of its own. Content that starts with \<open>error executing task\<close> is
  passed on unnumbered. For the example text and a requested count of 2 the trimmed block
  keeps \<open>"1. First question"\<close> and \<open>"2. Second\nquestion continued"\<close> (the third item is
  discarded) and the assembled lines are \<open>"1. First question"\<close>, \<open>"2. Second"\<close>,
  \<open>"3. question continued"\<close>.
\<close>

theorem final_assembly_numbers_lines:
  "(q \<in> set (kept_questions result_text n) \<longrightarrow> verbatim_item (split_lines result_text) q)
   \<and> (\<not> startswith (lower (strip content)) ''error executing task''
        \<and> filter (\<lambda>line. \<not> contains line (strip header) \<and> strip line \<noteq> []) (split_lines (strip content)) \<noteq> [] \<longrightarrow>
        format_task_result header content =
          (NL # strip header) #
          map (\<lambda>(idx, line). str_nat idx @ ''. '' @ strip_numbering line)
              (enumerate_from 1 (filter (\<lambda>line. \<not> contains line (strip header) \<and> strip line \<noteq> []) (split_lines (strip content)))))
   \<and> (k < length ls \<longrightarrow> enumerate_from 1 ls ! k = (Suc k, ls ! k))
   \<and> (isdigit ds \<longrightarrow> strip_numbering (ds @ ''. '' @ body) = strip body)
   \<and> (ds \<noteq> [] \<and> list_all is_digit ds \<longrightarrow>
        strip_numbering (ds @ CHR '')'' # body)
          = strip (dropWhile (\<lambda>c. \<not> is_word c) (rstrip body)))
   \<and> (startswith (lower (strip content)) ''error executing task'' \<longrightarrow>
        format_task_result header content = [NL # strip header, strip content])
   \<and> kept_questions ''1. First question\<newline>\<newline>2. Second\<newline>question continued\<newline>\<newline>3. Third'' 2 = [''1. First question'', ''2. Second\<newline>question continued'']
   \<and> format_task_result ''--- Enhanced Questions for Assets.csv ---'' (trim_questions_to_exact_count ''1. First question\<newline>\<newline>2. Second\<newline>question continued\<newline>\<newline>3. Third'' 2)
       = [''\<newline>--- Enhanced Questions for Assets.csv ---'',
          ''1. First question'', ''2. Second'', ''3. question continued'']"
proof -
  have a: "q \<in> set (kept_questions result_text n) \<longrightarrow> verbatim_item (split_lines result_text) q"
    using kept_subset extract_questions_verbatim by blast
  have b: "\<not> startswith (lower (strip content)) ''error executing task''
        \<and> filter (\<lambda>line. \<not> contains line (strip header) \<and> strip line \<noteq> []) (split_lines (strip content)) \<noteq> [] \<longrightarrow>
        format_task_result header content =
          (NL # strip header) #
          map (\<lambda>(idx, line). str_nat idx @ ''. '' @ strip_numbering line)
              (enumerate_from 1 (filter (\<lambda>line. \<not> contains line (strip header) \<and> strip line \<noteq> []) (split_lines (strip content))))"
    using format_task_result_entries [of content header] by (simp add: cleaned_lines_def)
  have c: "k < length ls \<longrightarrow> enumerate_from 1 ls ! k = (Suc k, ls ! k)"
    using enumerate_from_nth by blast
  have d: "isdigit ds \<longrightarrow> strip_numbering (ds @ ''. '' @ body) = strip body"
    using strip_numbering_dot by blast
  have e: "ds \<noteq> [] \<and> list_all is_digit ds \<longrightarrow>
        strip_numbering (ds @ CHR '')'' # body)
          = strip (dropWhile (\<lambda>c. \<not> is_word c) (rstrip body))"
    using strip_numbering_paren by blast
  have f: "startswith (lower (strip content)) ''error executing task'' \<longrightarrow>
        format_task_result header content = [NL # strip header, strip content]"
    using format_task_result_error by blast
  have g: "kept_questions ''1. First question\<newline>\<newline>2. Second\<newline>question continued\<newline>\<newline>3. Third'' 2 = [''1. First question'', ''2. Second\<newline>question continued'']"
    by code_simp
  have h: "format_task_result ''--- Enhanced Questions for Assets.csv ---'' (trim_questions_to_exact_count ''1. First question\<newline>\<newline>2. Second\<newline>question continued\<newline>\<newline>3. Third'' 2)
       = [''\<newline>--- Enhanced Questions for Assets.csv ---'',
          ''1. First question'', ''2. Second'', ''3. question continued'']"
    by code_simp
  show ?thesis
    using a b c d e f g h by blast
qed

theorem final_assembly_numbers_lines_witness:
  "''2. Second\<newline>question continued'' \<in> set (kept_questions ''1. First question\<newline>\<newline>2. Second\<newline>question continued\<newline>\<newline>3. Third'' 2)
   \<and> verbatim_item (split_lines ''1. First question\<newline>\<newline>2. Second\<newline>question continued\<newline>\<newline>3. Third'') ''2. Second\<newline>question continued''
   \<and> \<not> startswith (lower (strip ''1. about Hdr\<newline>7) ok\<newline>\<newline>9. fine'')) ''error executing task''
   \<and> filter (\<lambda>line. \<not> contains line (strip ''Hdr'') \<and> strip line \<noteq> []) (split_lines (strip ''1. about Hdr\<newline>7) ok\<newline>\<newline>9. fine'')) = [''7) ok'', ''9. fine'']
   \<and> format_task_result ''Hdr'' ''1. about Hdr\<newline>7) ok\<newline>\<newline>9. fine'' = [''\<newline>Hdr'', ''1. ok'', ''2. fine'']
   \<and> (1::nat) < length [''Seven'', ''Nine'']
   \<and> enumerate_from 1 [''Seven'', ''Nine''] ! 1 = (2, ''Nine'')
   \<and> isdigit ''12''
   \<and> strip_numbering ''12.  Twelfth question '' = ''Twelfth question''
   \<and> list_all is_digit ''7''
   \<and> strip_numbering ''7)  Seventh question '' = ''Seventh question''
   \<and> startswith (lower (strip ''Error executing task X: timeout'')) ''error executing task''
   \<and> format_task_result ''Hdr'' ''Error executing task X: timeout''
       = [''\<newline>Hdr'', ''Error executing task X: timeout'']"
proof -
  note t = final_assembly_numbers_lines
  have m: "''2. Second\<newline>question continued'' \<in> set (kept_questions ''1. First question\<newline>\<newline>2. Second\<newline>question continued\<newline>\<newline>3. Third'' 2)"
    by code_simp
  have v: "verbatim_item (split_lines ''1. First question\<newline>\<newline>2. Second\<newline>question continued\<newline>\<newline>3. Third'') ''2. Second\<newline>question continued''"
    using t [where q = "''2. Second\<newline>question continued''" and result_text = "''1. First question\<newline>\<newline>2. Second\<newline>question continued\<newline>\<newline>3. Third''" and n = 2,
             THEN conjunct1] m
    by blast
  have n1: "\<not> startswith (lower (strip ''1. about Hdr\<newline>7) ok\<newline>\<newline>9. fine'')) ''error executing task''"
    by code_simp
  have n2: "filter (\<lambda>line. \<not> contains line (strip ''Hdr'') \<and> strip line \<noteq> []) (split_lines (strip ''1. about Hdr\<newline>7) ok\<newline>\<newline>9. fine'')) = [''7) ok'', ''9. fine'']"
    by code_simp
  have n3: "(NL # strip ''Hdr'') #
          map (\<lambda>(idx, line). str_nat idx @ ''. '' @ strip_numbering line)
              (enumerate_from 1 [''7) ok'', ''9. fine'']) = [''\<newline>Hdr'', ''1. ok'', ''2. fine'']"
    by code_simp
  have r: "format_task_result ''Hdr'' ''1. about Hdr\<newline>7) ok\<newline>\<newline>9. fine'' = [''\<newline>Hdr'', ''1. ok'', ''2. fine'']"
    using t [where content = "''1. about Hdr\<newline>7) ok\<newline>\<newline>9. fine''" and header = "''Hdr''",
             THEN conjunct2, THEN conjunct1] n1 n2 n3
    by simp
  have k: "enumerate_from 1 [''Seven'', ''Nine''] ! 1 = (2, ''Nine'')"
    using t [where k = 1 and ls = "[''Seven'', ''Nine'']",
             THEN conjunct2, THEN conjunct2, THEN conjunct1]
    by simp
  have i: "isdigit ''12''"
    by code_simp
  have s1: "strip '' Twelfth question '' = ''Twelfth question''"
    by code_simp
  have d: "strip_numbering ''12.  Twelfth question '' = ''Twelfth question''"
    using t [where ds = "''12''" and body = "'' Twelfth question ''",
             THEN conjunct2, THEN conjunct2, THEN conjunct2, THEN conjunct1] i s1
    by simp
  have j: "list_all is_digit ''7''"
    by code_simp
  have s2: "strip (dropWhile (\<lambda>c. \<not> is_word c) (rstrip ''  Seventh question '')) = ''Seventh question''"
    by code_simp
  have p: "strip_numbering ''7)  Seventh question '' = ''Seventh question''"
    using t [where ds = "''7''" and body = "''  Seventh question ''",
             THEN conjunct2, THEN conjunct2, THEN conjunct2, THEN conjunct2, THEN conjunct1] j s2
    by simp
  have e1: "startswith (lower (strip ''Error executing task X: timeout'')) ''error executing task''"
    by code_simp
  have s3: "strip ''Error executing task X: timeout'' = ''Error executing task X: timeout''"
    by code_simp
  have e2: "format_task_result ''Hdr'' ''Error executing task X: timeout''
       = [''\<newline>Hdr'', ''Error executing task X: timeout'']"
    using t [where content = "''Error executing task X: timeout''" and header = "''Hdr''",
             THEN conjunct2, THEN conjunct2, THEN conjunct2, THEN conjunct2, THEN conjunct2,
             THEN conjunct1] e1 s3 n3
    by (simp add: NL_def)
  show ?thesis
    using m v n1 n2 r k i d j p e1 e2 by simp
qed

section \<open>Properties of the offline template generator\<close>

lemma str_nat_upto_15:
  "str_nat (Suc 0) = ''1''" "str_nat (Suc (Suc 0)) = ''2''" "str_nat (Suc (Suc (Suc 0))) = ''3''" "str_nat (Suc (Suc (Suc (Suc 0)))) = ''4''" "str_nat (Suc (Suc (Suc (Suc (Suc 0))))) = ''5''" "str_nat (Suc (Suc (Suc (Suc (Suc (Suc 0)))))) = ''6''" "str_nat (Suc (Suc (Suc (Suc (Suc (Suc (Suc 0))))))) = ''7''" "str_nat (Suc (Suc (Suc (Suc (Suc (Suc (Suc (Suc 0)))))))) = ''8''" "str_nat (Suc (Suc (Suc (Suc (Suc (Suc (Suc (Suc (Suc 0))))))))) = ''9''" "str_nat (Suc (Suc (Suc (Suc (Suc (Suc (Suc (Suc (Suc (Suc 0)))))))))) = ''10''" "str_nat (Suc (Suc (Suc (Suc (Suc (Suc (Suc (Suc (Suc (Suc (Suc 0))))))))))) = ''11''" "str_nat (Suc (Suc (Suc (Suc (Suc (Suc (Suc (Suc (Suc (Suc (Suc (Suc 0)))))))))))) = ''12''" "str_nat (Suc (Suc (Suc (Suc (Suc (Suc (Suc (Suc (Suc (Suc (Suc (Suc (Suc 0))))))))))))) = ''13''" "str_nat (Suc (Suc (Suc (Suc (Suc (Suc (Suc (Suc (Suc (Suc (Suc (Suc (Suc (Suc 0)))))))))))))) = ''14''" "str_nat (Suc (Suc (Suc (Suc (Suc (Suc (Suc (Suc (Suc (Suc (Suc (Suc (Suc (Suc (Suc 0))))))))))))))) = ''15''"
  by code_simp+

lemma generic_questions_numbered: "numbered_from_one (generic_questions d)"
  unfolding numbered_from_one_def enumerate_from_def generic_questions_def
  by (simp add: str_nat_upto_15)

lemma numbered_from_one_take: "numbered_from_one qs \<Longrightarrow> numbered_from_one (take m qs)"
proof -
  assume a: "numbered_from_one qs"
  have "enumerate_from 1 (take m qs) = take m (enumerate_from 1 qs)"
    unfolding enumerate_from_def by (simp add: take_zip take_upt min_def del: upt_Suc)
  with a show ?thesis
    unfolding numbered_from_one_def by (auto simp: list_all_iff dest: in_set_takeD)
qed

lemma fixed_templates_numbered:
  "numbered_from_one asset_questions" "numbered_from_one liability_questions"
  "numbered_from_one ratio_questions" "numbered_from_one comparison_questions"
  by code_simp+

lemma individual_questions_numbered: "numbered_from_one (individual_questions d)"
  by (simp add: individual_questions_def fixed_templates_numbered generic_questions_numbered)

lemma individual_questions_length: "length (individual_questions d) = 15"
  by (simp add: individual_questions_def asset_questions_def liability_questions_def
      ratio_questions_def generic_questions_def)

lemma comparison_questions_length: "length comparison_questions = 10"
  by (simp add: comparison_questions_def)

text \<open>
  C4 fails on the code when more questions are requested than a template list holds,
  although the generators are documented to return exactly \<open>num_questions\<close> questions:
  15 comparison questions, the default of the interactive prompt and of
  \<open>_generate_offline_results\<close>, give the 10 entries of the comparison list, the same
  result as a request for 10; 20 questions for \<open>Assets.csv\<close> give 15 entries.
\<close>

theorem offline_default_count_falls_short:
  "length (slice_to comparison_questions 15) = 10
   \<and> generate_offline_comparison_result 15 = generate_offline_comparison_result 10
   \<and> length (slice_to (individual_questions ''Assets.csv'') 20) = 15
   \<and> generate_offline_individual_result ''Assets.csv'' 20
       = generate_offline_individual_result ''Assets.csv'' 15"
  by code_simp

text \<open>Up to the size of the selected list the slice has exactly the requested number
  of entries, numbered from 1.\<close>

lemma offline_templates_are_sliced:
  assumes "1 \<le> n"
  shows "generate_offline_individual_result d n =
           (''--- Enhanced Questions for '' @ d @ '' ---'') @ [NL, NL] @
           join [NL] (take (nat n) (individual_questions d))
       \<and> length (slice_to (individual_questions d) n) = min (nat n) 15
       \<and> numbered_from_one (slice_to (individual_questions d) n)
       \<and> generate_offline_comparison_result n =
           ''--- Enhanced Comparison Questions ---'' @ [NL, NL] @
           join [NL] (take (nat n) comparison_questions)
       \<and> length (slice_to comparison_questions n) = min (nat n) 10
       \<and> numbered_from_one (slice_to comparison_questions n)"
proof -
  have s: "\<And>xs :: string list. slice_to xs n = take (nat n) xs"
    using assms by (simp add: slice_to_nonneg)
  show ?thesis
    unfolding generate_offline_individual_result_def generate_offline_comparison_result_def s
    by (simp add: individual_questions_length comparison_questions_length min.commute
        numbered_from_one_take individual_questions_numbered fixed_templates_numbered)
qed

section \<open>Properties of the ingestion\<close>

lemma try_encodings_events:
  "fst (try_encodings rd n es) =
     map (\<lambda>e. Read (Csv e)) (take (Suc (length (takeWhile (\<lambda>e. rd (Csv e) n = Raised UnicodeDecodeError) es))) es)"
proof (induction es)
  case Nil
  then show ?case by simp
next
  case (Cons e es)
  then show ?case
    by (auto split: read_result.splits read_exn.splits prod.splits)
qed


lemma try_encodings_None:
  "snd (try_encodings rd n es) = Inr None \<longleftrightarrow> takeWhile (\<lambda>e. rd (Csv e) n = Raised UnicodeDecodeError) es = es"
  by (induction es) (auto split: read_result.splits read_exn.splits prod.splits)

lemma read_csv_events:
  "fst (read_csv rd n) =
     map (\<lambda>e. Read (Csv e)) (take (Suc (length (undecodable rd n))) encodings)
     @ (if undecodable rd n = encodings then [Read Csv_utf8_errors_ignore] else [])"
proof -
  obtain evs r where t: "try_encodings rd n encodings = (evs, r)"
    by (cases "try_encodings rd n encodings")
  have e: "evs = map (\<lambda>e. Read (Csv e)) (take (Suc (length (undecodable rd n))) encodings)"
    using try_encodings_events [of rd n encodings] t by (simp add: undecodable_def)
  have n: "r = Inr None \<longleftrightarrow> undecodable rd n = encodings"
    using try_encodings_None [of rd n encodings] t by (simp add: undecodable_def)
  show ?thesis
    unfolding read_csv_def t using e n
    by (auto split: sum.splits option.splits read_result.splits)
qed

lemma read_csv_fallback:
  assumes "undecodable rd n = encodings"
  shows "snd (read_csv rd n) = (case rd Csv_utf8_errors_ignore n of Loaded df \<Rightarrow> Inr df | Raised x \<Rightarrow> Inl x)"
proof -
  obtain evs r where t: "try_encodings rd n encodings = (evs, r)"
    by (cases "try_encodings rd n encodings")
  have "r = Inr None"
    using try_encodings_None [of rd n encodings] t assms by (simp add: undecodable_def)
  then show ?thesis
    unfolding read_csv_def t by (auto split: read_result.splits)
qed


lemma mb_bands:
  "real b / (1024 * 1024) > MAX_FILE_SIZE_MB \<longleftrightarrow> b > 524288000"
  "real b / (1024 * 1024) > LARGE_FILE_WARNING_MB \<longleftrightarrow> b > 52428800"
  by (auto simp: MAX_FILE_SIZE_MB_def LARGE_FILE_WARNING_MB_def field_simps)

lemma silent_append: "silent (xs @ ys) \<longleftrightarrow> silent xs \<and> silent ys"
  by (simp add: silent_def)

lemma silent_reads: "silent (map (\<lambda>e. Read (Csv e)) es)"
  by (induction es) (simp_all add: silent_def)

lemma read_csv_silent: "silent (fst (read_csv rd n))"
  unfolding read_csv_events by (simp add: silent_append silent_reads) (simp add: silent_def)

lemma read_by_extension_silent: "silent (fst (read_by_extension rd n ext))"
proof -
  obtain evs r where c: "read_csv rd n = (evs, r)"
    by (cases "read_csv rd n")
  then have "silent evs"
    using read_csv_silent [of rd n] by simp
  then show ?thesis
    unfolding read_by_extension_def c
    by (auto simp: silent_def split: sum.splits read_result.splits)
qed

lemma load_data_silent: "silent (fst (load_data f mr rd))"
proof -
  let ?n = "case mr of None \<Rightarrow> MAX_ROWS_DEFAULT | Some m \<Rightarrow> m"
  obtain evs r where c: "read_by_extension rd ?n (lower (extension f)) = (evs, r)"
    by (cases "read_by_extension rd ?n (lower (extension f))")
  then have "silent evs"
    using read_by_extension_silent [of rd ?n "lower (extension f)"] by simp
  then show ?thesis
    unfolding load_data_def Let_def c
    by (auto simp: silent_append silent_def split: sum.splits)
qed

lemma check_file_safety_sized:
  assumes "path_exists f" and "is_file f" and "size_bytes f = Some b"
  shows "check_file_safety f =
     (if 524288000 < b then (False, File_too_large (real b / (1024 * 1024)))
      else if 52428800 < b then (True, Large_file_warning (real b / (1024 * 1024)))
      else (True, File_size_OK (real b / (1024 * 1024))))"
  using assms
  by (auto simp: check_file_safety_def Let_def MAX_FILE_SIZE_MB_def LARGE_FILE_WARNING_MB_def)








lemma reads_map_Read: "reads (map (\<lambda>e. Read (Csv e)) es) = map Csv es"
  by (induction es) (simp_all add: reads_def)





text \<open>
  C5. For a path that exists, is a file and whose size can be read, the size policy has
  three bands, with 1 MB = 1024 * 1024 bytes. Above 500 MB (524288000 bytes)
  \<open>check_file_safety\<close> answers unsafe with the too-large message and \<open>read_file\<close> fails
  with that message before any read. Above 50 MB (52428800 bytes) and up to 500 MB the file
  is safe with the large-file warning; \<open>read_file\<close> prints it and, when interactive, asks
  and goes on to load only on the answer y or yes, failing otherwise without a read;
  when not interactive it loads. Up to 50 MB the file is loaded with no warning and no
  question.
\<close>

theorem size_policy_three_bands:
  assumes "path_exists f" and "is_file f" and "size_bytes f = Some b"
  shows "(524288000 < b \<longrightarrow>
            check_file_safety f = (False, File_too_large (real b / (1024 * 1024)))
          \<and> read_file f mr interactive ans rd =
              ([], Inl (ValueError_unsafe (File_too_large (real b / (1024 * 1024))))))
       \<and> (52428800 < b \<and> b \<le> 524288000 \<longrightarrow>
            check_file_safety f = (True, Large_file_warning (real b / (1024 * 1024)))
          \<and> read_file f mr False ans rd =
              (Printed_warning (Large_file_warning (real b / (1024 * 1024))) # fst (load_data f mr rd),
               snd (load_data f mr rd))
          \<and> read_file f mr True ans rd =
              (if lower (strip ans) = ''y'' \<or> lower (strip ans) = ''yes''
               then (Printed_warning (Large_file_warning (real b / (1024 * 1024))) #
                       Prompted_continue # fst (load_data f mr rd),
                     snd (load_data f mr rd))
               else ([Printed_warning (Large_file_warning (real b / (1024 * 1024))), Prompted_continue],
                     Inl ValueError_user_cancelled)))
       \<and> (b \<le> 52428800 \<longrightarrow>
            check_file_safety f = (True, File_size_OK (real b / (1024 * 1024)))
          \<and> read_file f mr interactive ans rd = load_data f mr rd
          \<and> silent (fst (read_file f mr interactive ans rd)))"
proof -
  note c = check_file_safety_sized [OF assms]
  have r1: "524288000 < b \<Longrightarrow> read_file f mr interactive ans rd =
      ([], Inl (ValueError_unsafe (File_too_large (real b / (1024 * 1024)))))"
    unfolding read_file_def c by simp
  have r2: "52428800 < b \<Longrightarrow> b \<le> 524288000 \<Longrightarrow> read_file f mr False ans rd =
      (Printed_warning (Large_file_warning (real b / (1024 * 1024))) # fst (load_data f mr rd),
       snd (load_data f mr rd))"
    unfolding read_file_def c by (simp split: prod.splits)
  have r3: "52428800 < b \<Longrightarrow> b \<le> 524288000 \<Longrightarrow> read_file f mr True ans rd =
      (if lower (strip ans) = ''y'' \<or> lower (strip ans) = ''yes''
       then (Printed_warning (Large_file_warning (real b / (1024 * 1024))) #
               Prompted_continue # fst (load_data f mr rd),
             snd (load_data f mr rd))
       else ([Printed_warning (Large_file_warning (real b / (1024 * 1024))), Prompted_continue],
             Inl ValueError_user_cancelled))"
    unfolding read_file_def c by (simp add: Let_def split: prod.splits)
  have r4: "b \<le> 52428800 \<Longrightarrow> read_file f mr interactive ans rd = load_data f mr rd"
    unfolding read_file_def c by simp
  have r5: "b \<le> 52428800 \<Longrightarrow> silent (fst (read_file f mr interactive ans rd))"
    using r4 load_data_silent [of f mr rd] by simp
  have c1: "524288000 < b \<Longrightarrow> check_file_safety f = (False, File_too_large (real b / (1024 * 1024)))"
    unfolding c by simp
  have c2: "52428800 < b \<Longrightarrow> b \<le> 524288000 \<Longrightarrow>
      check_file_safety f = (True, Large_file_warning (real b / (1024 * 1024)))"
    unfolding c by simp
  have c3: "b \<le> 52428800 \<Longrightarrow> check_file_safety f = (True, File_size_OK (real b / (1024 * 1024)))"
    unfolding c by simp
  show ?thesis
    using c1 c2 c3 r1 r2 r3 r4 r5 by blast
qed

theorem size_policy_three_bands_witness:
  "read_file \<lparr>path_exists = True, is_file = True, size_bytes = Some 524288001, extension = ''.csv''\<rparr>
     None True ''y'' (\<lambda>c n. Loaded \<lparr>n_rows = 2, n_columns = 3\<rparr>)
     = ([], Inl (ValueError_unsafe (File_too_large (524288001 / (1024 * 1024)))))
   \<and> read_file \<lparr>path_exists = True, is_file = True, size_bytes = Some 524288000, extension = ''.csv''\<rparr>
       None True ''no'' (\<lambda>c n. Loaded \<lparr>n_rows = 2, n_columns = 3\<rparr>)
     = ([Printed_warning (Large_file_warning (524288000 / (1024 * 1024))), Prompted_continue],
        Inl ValueError_user_cancelled)
   \<and> check_file_safety \<lparr>path_exists = True, is_file = True, size_bytes = Some 52428800, extension = ''.csv''\<rparr>
     = (True, File_size_OK (52428800 / (1024 * 1024)))
   \<and> silent (fst (read_file \<lparr>path_exists = True, is_file = True, size_bytes = Some 52428800, extension = ''.csv''\<rparr>
       None True ''no'' (\<lambda>c n. Loaded \<lparr>n_rows = 2, n_columns = 3\<rparr>)))"
proof -
  have n: "lower (strip ''no'') = ''no''"
    by code_simp
  have a: "read_file \<lparr>path_exists = True, is_file = True, size_bytes = Some 524288001, extension = ''.csv''\<rparr>
     None True ''y'' (\<lambda>c n. Loaded \<lparr>n_rows = 2, n_columns = 3\<rparr>)
     = ([], Inl (ValueError_unsafe (File_too_large (524288001 / (1024 * 1024)))))"
    using size_policy_three_bands
        [of "\<lparr>path_exists = True, is_file = True, size_bytes = Some 524288001, extension = ''.csv''\<rparr>"
            524288001 None True "''y''" "\<lambda>c n. Loaded \<lparr>n_rows = 2, n_columns = 3\<rparr>"]
    by simp
  have b: "read_file \<lparr>path_exists = True, is_file = True, size_bytes = Some 524288000, extension = ''.csv''\<rparr>
       None True ''no'' (\<lambda>c n. Loaded \<lparr>n_rows = 2, n_columns = 3\<rparr>)
     = ([Printed_warning (Large_file_warning (524288000 / (1024 * 1024))), Prompted_continue],
        Inl ValueError_user_cancelled)"
    using size_policy_three_bands
        [of "\<lparr>path_exists = True, is_file = True, size_bytes = Some 524288000, extension = ''.csv''\<rparr>"
            524288000 None True "''no''" "\<lambda>c n. Loaded \<lparr>n_rows = 2, n_columns = 3\<rparr>"]
    by (simp add: n)
  have c: "check_file_safety \<lparr>path_exists = True, is_file = True, size_bytes = Some 52428800, extension = ''.csv''\<rparr>
     = (True, File_size_OK (52428800 / (1024 * 1024)))
   \<and> silent (fst (read_file \<lparr>path_exists = True, is_file = True, size_bytes = Some 52428800, extension = ''.csv''\<rparr>
       None True ''no'' (\<lambda>c n. Loaded \<lparr>n_rows = 2, n_columns = 3\<rparr>)))"
    using size_policy_three_bands
        [of "\<lparr>path_exists = True, is_file = True, size_bytes = Some 52428800, extension = ''.csv''\<rparr>"
            52428800 None True "''no''" "\<lambda>c n. Loaded \<lparr>n_rows = 2, n_columns = 3\<rparr>"]
    by auto
  show ?thesis
    using a b c by blast
qed




end
